theory Spec2Isabelle
  imports Complex_Main
begin

section \<open>Text\<close>

text \<open>
  A Python \<open>str\<close> is a sequence of code points. It is modelled as a \<open>string\<close> with one
  \<open>char\<close> per code point, so the model covers text whose code points lie in 0..255
  (Latin-1): every key, pattern and message of the program is in that range. \<open>length\<close>
  is Python's \<open>len\<close>.
\<close>

definition code :: "char \<Rightarrow> nat" where
  "code c = of_char c"

definition TAB :: char where
  "TAB = CHR 0x09"

definition isspace :: "char \<Rightarrow> bool" where
  \<comment> \<open>\<open>str.isspace\<close>, which is also the class \<open>\s\<close> of \<open>re\<close> on \<open>str\<close> patterns.\<close>
  "isspace c = (let n = code c in
     (9 \<le> n \<and> n \<le> 13) \<or> (28 \<le> n \<and> n \<le> 32) \<or> n = 133 \<or> n = 160)"

definition strip :: "string \<Rightarrow> string" where
  "strip s = rev (dropWhile isspace (rev (dropWhile isspace s)))"

definition flip5 :: "bool \<Rightarrow> char \<Rightarrow> char" where
  \<comment> \<open>The two cases of a Latin-1 letter differ in the bit of weight 32.\<close>
  "flip5 b c = (case c of Char b0 b1 b2 b3 b4 b5 b6 b7 \<Rightarrow> Char b0 b1 b2 b3 b4 b b6 b7)"

definition is_lower_letter :: "char \<Rightarrow> bool" where
  "is_lower_letter c = (let n = code c in
     (97 \<le> n \<and> n \<le> 122) \<or> (224 \<le> n \<and> n \<le> 254 \<and> n \<noteq> 247))"

definition is_upper_letter :: "char \<Rightarrow> bool" where
  "is_upper_letter c = (let n = code c in
     (65 \<le> n \<and> n \<le> 90) \<or> (192 \<le> n \<and> n \<le> 222 \<and> n \<noteq> 215))"

definition upper_char :: "char \<Rightarrow> string" where
  \<comment> \<open>\<open>str.upper\<close> on one code point. U+00DF becomes \<open>SS\<close>. The upper-case forms of
      U+00B5 and U+00FF lie beyond code point 255; the model leaves these two unchanged.\<close>
  "upper_char c =
     (if is_lower_letter c then [flip5 False c]
      else if code c = 223 then ''SS''
      else [c])"

definition upper :: "string \<Rightarrow> string" where
  "upper s = concat (map upper_char s)"

definition lower_char :: "char \<Rightarrow> char" where
  "lower_char c = (if is_upper_letter c then flip5 True c else c)"

definition lower :: "string \<Rightarrow> string" where
  "lower s = map lower_char s"

fun startswith :: "string \<Rightarrow> string \<Rightarrow> bool" where
  "startswith s [] = True"
| "startswith [] (p # ps) = False"
| "startswith (c # cs) (p # ps) = (c = p \<and> startswith cs ps)"

fun contains :: "string \<Rightarrow> string \<Rightarrow> bool" where
  \<comment> \<open>\<open>contains sub s\<close> is Python's \<open>sub in s\<close>.\<close>
  "contains sub [] = (sub = [])"
| "contains sub (c # cs) = (startswith (c # cs) sub \<or> contains sub cs)"

fun split_ws :: "string \<Rightarrow> string list" where
  \<comment> \<open>\<open>str.split()\<close> with no argument: the maximal runs of non-space characters.\<close>
  "split_ws [] = []"
| "split_ws (c # cs) =
     (if isspace c then split_ws cs
      else (case split_ws cs of
              [] \<Rightarrow> [[c]]
            | w # ws \<Rightarrow> (case cs of
                          [] \<Rightarrow> [[c]]
                        | d # _ \<Rightarrow> if isspace d then [c] # w # ws else (c # w) # ws)))"

fun join :: "string \<Rightarrow> string list \<Rightarrow> string" where
  \<comment> \<open>\<open>sep.join(xs)\<close>\<close>
  "join sep [] = []"
| "join sep [x] = x"
| "join sep (x # y # ys) = x @ sep @ join sep (y # ys)"

fun split_char :: "char \<Rightarrow> string \<Rightarrow> string list" where
  \<comment> \<open>\<open>s.split(d)\<close> for a delimiter \<open>d\<close> of one character.\<close>
  "split_char d [] = [[]]"
| "split_char d (c # cs) =
     (if c = d then [] # split_char d cs
      else (case split_char d cs of
              [] \<Rightarrow> [[c]]
            | w # ws \<Rightarrow> (c # w) # ws))"

fun collapse_ws :: "string \<Rightarrow> string" where
  \<comment> \<open>\<open>re.sub(r'\s+', ' ', s)\<close>: each maximal run of spaces becomes one blank.\<close>
  "collapse_ws [] = []"
| "collapse_ws (c # cs) =
     (if isspace c then
        (case cs of
           [] \<Rightarrow> '' ''
         | d # _ \<Rightarrow> if isspace d then collapse_ws cs else CHR '' '' # collapse_ws cs)
      else c # collapse_ws cs)"

section \<open>Confidence and field results\<close>

datatype Confidence = HIGH | MEDIUM | LOW | NONE

record FieldResult =
  "value" :: string
  confidence :: Confidence
  source :: string
  "notes" :: string

section \<open>DocumentValidator\<close>

definition validate_document :: "string \<Rightarrow> bool \<times> string" where
  "validate_document doc_number =
     (if doc_number = [] then (False, ''Documento vac'' @ [CHR 0xED] @ ''o'')
      else let d = upper (strip doc_number) in
        if length d < 5 then (False, ''Documento muy corto'')
        else if length d > 20 then (False, ''Documento muy largo'')
        else if d \<in> set [''NAN'', ''NONE'', ''NULL'', ''N/A'', ''-'']
          then (False, ''Documento inv'' @ [CHR 0xE1] @ ''lido'')
        else if length (remdups (filter (\<lambda>c. c \<noteq> CHR ''-'') d)) = 1
          then (False, ''Documento con patr'' @ [CHR 0xF3] @ ''n inv'' @ [CHR 0xE1] @ ''lido'')
        else (True, ''OK''))"

section \<open>Properties of the text operations\<close>

lemma isspace_hyphen [simp]: "\<not> isspace (CHR ''-'')"
  by (simp add: isspace_def code_def)

lemma strip_hyphens: "strip (replicate n (CHR ''-'')) = replicate n (CHR ''-'')"
  by (cases n) (simp_all add: strip_def dropWhile_replicate del: replicate.simps)

lemma upper_char_hyphen [simp]: "upper_char (CHR ''-'') = ''-''"
  by (simp add: upper_char_def is_lower_letter_def code_def)

lemma upper_hyphens: "upper (replicate n (CHR ''-'')) = replicate n (CHR ''-'')"
  by (induction n) (simp_all add: upper_def)

section \<open>Claims\<close>

text \<open>
  C10. A document number that consists of hyphens only, between 5 and 20 of them, is
  accepted by \<open>validate_document\<close> with the message \<open>OK\<close>: removing the hyphens leaves no
  character, so the set of remaining characters has size 0, not 1, and the
  repeated-character rule does not fire; the length rules and the null-token rule
  do not fire either.
\<close>

theorem validate_document_hyphens:
  "5 \<le> n \<Longrightarrow> n \<le> 20 \<Longrightarrow> validate_document (replicate n (CHR ''-'')) = (True, ''OK'')"
proof -
  assume n: "5 \<le> n" "n \<le> 20"
  let ?d = "replicate n (CHR ''-'')"
  have d: "upper (strip ?d) = ?d"
    by (simp add: strip_hyphens upper_hyphens)
  have ne: "?d \<noteq> []" using n by auto
  have len: "length ?d = n" by simp
  have nomem: "?d \<notin> set [''NAN'', ''NONE'', ''NULL'', ''N/A'', ''-'']"
  proof
    assume "?d \<in> set [''NAN'', ''NONE'', ''NULL'', ''N/A'', ''-'']"
    then have "length ?d \<le> 4"
      by (auto simp del: length_replicate)
    with n show False by simp
  qed
  have fil: "filter (\<lambda>c. c \<noteq> CHR ''-'') ?d = []"
    by (simp add: filter_empty_conv)
  show ?thesis
    unfolding validate_document_def Let_def d fil
    using n ne nomem by simp
qed

theorem validate_document_hyphens_witness:
  "(5::nat) \<le> 5 \<and> (5::nat) \<le> 20 \<and> validate_document ''-----'' = (True, ''OK'')"
  using validate_document_hyphens [of 5] by (simp add: numeral_eq_Suc)

end
